theory Spec2Isabelle
  imports Main "HOL-Library.Word"
begin

section \<open>Node definitions and frozen metadata (node.go)\<close>

text \<open>
  A user node is a Go struct reached through a pointer. The definitions live in a heap
  \<open>Node list\<close>; a pointer is \<open>Some a\<close> with \<open>a\<close> an address of that heap, and
  \<open>None\<close> is the nil pointer. Callbacks are opaque: only whether they are nil matters to
  the engine, so a callback field holds an optional handle (also the backoff function,
  which may be randomised: its results are inputs of the run). Durations are nanoseconds.
\<close>

record Node =
  Name :: string
  Processor :: "nat option"
  LocalTimeout :: int
  TotalTimeout :: int
  Dependencies :: "nat option list"
  WeakDependencies :: "nat option list"
  MaxAttempts :: nat
  BackoffFunc :: "nat option"
  OnSuccess :: "nat option"
  OnFailure :: "nat option"

record nodeMetadata =
  name :: string
  processor :: "nat option"
  localTimeout :: int
  totalTimeout :: int
  depCnt :: "32 word"
  children :: "nat list"
  weakChildren :: "nat list"
  maxAttempts :: nat
  backoffFunc :: "nat option"
  onSuccess :: "nat option"
  onFailure :: "nat option"

definition newNodeMetadata :: "Node \<Rightarrow> nodeMetadata" where
  "newNodeMetadata node =
     \<lparr>name = (if Name node = [] then ''noname'' else Name node),
      processor = Processor node,
      localTimeout = LocalTimeout node,
      totalTimeout = TotalTimeout node,
      depCnt = 0,
      children = [],
      weakChildren = [],
      maxAttempts = MaxAttempts node,
      backoffFunc = BackoffFunc node,
      onSuccess = OnSuccess node,
      onFailure = OnFailure node\<rparr>"

definition maxUint :: "nat \<Rightarrow> nat \<Rightarrow> nat" where
  "maxUint a b = (if a > b then a else b)"

definition minDuration :: "int \<Rightarrow> int \<Rightarrow> int" where
  "minDuration a b = (if a < b then a else b)"

section \<open>The frozen graph and its builder (dag_builder.go)\<close>

record DAG =
  metaNodes :: "nodeMetadata list"
  rootNodes :: "nat list"

record dagBuilder =
  b_metaNodes :: "nodeMetadata list"
  b_index :: "nat \<rightharpoonup> nat"
  b_visited :: "bool list"
  b_next :: "int list"

definition newDagBuilder :: dagBuilder where
  "newDagBuilder = \<lparr>b_metaNodes = [], b_index = Map.empty, b_visited = [], b_next = []\<rparr>"

text \<open>
  One iteration of a dependency loop of \<open>add\<close>, after the recursive call returned
  \<open>depIdx\<close>: the dependency gets \<open>idx\<close> appended to its \<open>children\<close> (strong loop) or
  \<open>weakChildren\<close> (weak loop), and the dependent's \<open>depCnt\<close> (an int32) is incremented.
\<close>

definition link_dep :: "bool \<Rightarrow> nat \<Rightarrow> nat \<Rightarrow> dagBuilder \<Rightarrow> dagBuilder" where
  "link_dep weak idx depIdx b =
     (let ms = b_metaNodes b;
          d = ms ! depIdx;
          ms1 = ms[depIdx := (if weak then d\<lparr>weakChildren := weakChildren d @ [idx]\<rparr>
                              else d\<lparr>children := children d @ [idx]\<rparr>)];
          m = ms1 ! idx
      in b\<lparr>b_metaNodes := ms1[idx := m\<lparr>depCnt := depCnt m + 1\<rparr>]\<rparr>)"

text \<open>
  \<open>add\<close> recurses through the definitions; its recursion depth is bounded by the number
  of definitions not yet interned, which the model supplies as fuel. \<open>None\<close> means
  that the call did not return (fuel exhausted, or an address outside the heap, which a
  Go pointer never is). \<open>add_deps\<close> is the body of the two \<open>for ... range\<close> loops.
\<close>

fun add :: "nat \<Rightarrow> Node list \<Rightarrow> nat \<Rightarrow> dagBuilder \<Rightarrow> (nat \<times> dagBuilder) option"
  and add_deps :: "nat \<Rightarrow> Node list \<Rightarrow> bool \<Rightarrow> nat \<Rightarrow> nat option list \<Rightarrow> dagBuilder \<Rightarrow> dagBuilder option"
where
  "add 0 defs a b = None"
| "add (Suc fuel) defs a b =
     (if a \<ge> length defs then None
      else case b_index b a of
        Some idx \<Rightarrow> Some (idx, b)
      | None \<Rightarrow>
          (let idx = length (b_metaNodes b);
               b1 = b\<lparr>b_index := (b_index b)(a \<mapsto> idx),
                      b_metaNodes := b_metaNodes b @ [newNodeMetadata (defs ! a)]\<rparr>
           in case add_deps fuel defs False idx (Dependencies (defs ! a)) b1 of
                None \<Rightarrow> None
              | Some b2 \<Rightarrow>
                  (case add_deps fuel defs True idx (WeakDependencies (defs ! a)) b2 of
                     None \<Rightarrow> None
                   | Some b3 \<Rightarrow> Some (idx, b3))))"
| "add_deps fuel defs weak idx [] b = Some b"
| "add_deps fuel defs weak idx (None # deps) b = add_deps fuel defs weak idx deps b"
| "add_deps fuel defs weak idx (Some dep # deps) b =
     (case add fuel defs dep b of
        None \<Rightarrow> None
      | Some (depIdx, b') \<Rightarrow> add_deps fuel defs weak idx deps (link_dep weak idx depIdx b'))"

text \<open>The first loop of \<open>build\<close>: every non-nil input node is interned.\<close>

fun add_all :: "nat \<Rightarrow> Node list \<Rightarrow> nat option list \<Rightarrow> dagBuilder \<Rightarrow> dagBuilder option" where
  "add_all fuel defs [] b = Some b"
| "add_all fuel defs (None # ns) b = add_all fuel defs ns b"
| "add_all fuel defs (Some a # ns) b =
     (case add fuel defs a b of None \<Rightarrow> None | Some (_, b') \<Rightarrow> add_all fuel defs ns b')"

text \<open>\<open>strings.Join\<close>.\<close>

fun join :: "string list \<Rightarrow> string \<Rightarrow> string" where
  "join [] sep = []"
| "join [x] sep = x"
| "join (x # y # ys) sep = x @ sep @ join (y # ys) sep"

text \<open>
  The loop of \<open>detectCycle\<close> that collects the names along \<open>next\<close> from \<open>next[idx]\<close>
  back to \<open>idx\<close>. Indexing outside the slice panics and the loop need not end in an
  arbitrary state; both are \<open>None\<close>.
\<close>

fun walk :: "nat \<Rightarrow> dagBuilder \<Rightarrow> nat \<Rightarrow> int \<Rightarrow> string list \<Rightarrow> string list option" where
  "walk 0 b idx cur cycle = None"
| "walk (Suc fuel) b idx cur cycle =
     (if cur = int idx then Some cycle
      else if cur < 0 \<or> nat cur \<ge> length (b_next b) \<or> nat cur \<ge> length (b_metaNodes b) then None
      else walk fuel b idx (b_next b ! nat cur) (cycle @ [name (b_metaNodes b ! nat cur)]))"

definition cycle_error :: "dagBuilder \<Rightarrow> nat \<Rightarrow> nat \<Rightarrow> string option" where
  "cycle_error b fuel idx =
     (case walk fuel b idx (b_next b ! idx) [name (b_metaNodes b ! idx)] of
        None \<Rightarrow> None
      | Some cycle \<Rightarrow>
          Some (''cyclic dependency detected: '' @
                join (rev (cycle @ [name (b_metaNodes b ! idx)])) '' -> ''))"

text \<open>
  \<open>detectCycle\<close> returns the builder and the error (\<open>None\<close> for Go's nil error). The
  recursion depth is bounded by the number of nodes, supplied as fuel.
\<close>

fun detectCycle :: "nat \<Rightarrow> nat \<Rightarrow> dagBuilder \<Rightarrow> (string option \<times> dagBuilder) option"
  and detect_children :: "nat \<Rightarrow> nat \<Rightarrow> nat list \<Rightarrow> dagBuilder \<Rightarrow> (string option \<times> dagBuilder) option"
where
  "detectCycle 0 idx b = None"
| "detectCycle (Suc fuel) idx b =
     (if idx \<ge> length (b_next b) \<or> idx \<ge> length (b_visited b) \<or> idx \<ge> length (b_metaNodes b)
      then None
      else if b_next b ! idx \<noteq> -1 then
        (case cycle_error b (Suc (length (b_next b))) idx of
           None \<Rightarrow> None
         | Some e \<Rightarrow> Some (Some e, b))
      else if b_visited b ! idx then Some (None, b)
      else
        (case detect_children fuel idx (children (b_metaNodes b ! idx))
                (b\<lparr>b_visited := (b_visited b)[idx := True]\<rparr>) of
           None \<Rightarrow> None
         | Some (Some e, b1) \<Rightarrow> Some (Some e, b1)
         | Some (None, b1) \<Rightarrow>
             (case detect_children fuel idx (weakChildren (b_metaNodes b1 ! idx)) b1 of
                None \<Rightarrow> None
              | Some (Some e, b2) \<Rightarrow> Some (Some e, b2)
              | Some (None, b2) \<Rightarrow> Some (None, b2\<lparr>b_next := (b_next b2)[idx := -1]\<rparr>))))"
| "detect_children fuel idx [] b = Some (None, b)"
| "detect_children fuel idx (child # cs) b =
     (case detectCycle fuel child (b\<lparr>b_next := (b_next b)[idx := int child]\<rparr>) of
        None \<Rightarrow> None
      | Some (Some e, b') \<Rightarrow> Some (Some e, b')
      | Some (None, b') \<Rightarrow> detect_children fuel idx cs b')"

text \<open>The loop of \<open>build\<close> that calls \<open>detectCycle\<close> on every index in order.\<close>

fun detect_all :: "nat \<Rightarrow> nat list \<Rightarrow> dagBuilder \<Rightarrow> (string option \<times> dagBuilder) option" where
  "detect_all fuel [] b = Some (None, b)"
| "detect_all fuel (idx # is) b =
     (case detectCycle fuel idx b of
        None \<Rightarrow> None
      | Some (Some e, b') \<Rightarrow> Some (Some e, b')
      | Some (None, b') \<Rightarrow> detect_all fuel is b')"

text \<open>
  \<open>build\<close>, and \<open>NewDAG\<close> around it: \<open>Inl\<close> is the returned error (and no DAG),
  \<open>Inr\<close> the DAG.
\<close>

definition build :: "nat \<Rightarrow> Node list \<Rightarrow> nat option list \<Rightarrow> (string + DAG) option" where
  "build fuel defs nodes =
     (case add_all fuel defs nodes newDagBuilder of
        None \<Rightarrow> None
      | Some b \<Rightarrow>
          (let n = length (b_metaNodes b);
               b1 = b\<lparr>b_visited := replicate n False, b_next := replicate n (-1)\<rparr>
           in case detect_all fuel [0..<n] b1 of
                None \<Rightarrow> None
              | Some (Some e, _) \<Rightarrow> Some (Inl e)
              | Some (None, b2) \<Rightarrow>
                  Some (Inr \<lparr>metaNodes = b_metaNodes b2,
                             rootNodes = filter (\<lambda>idx. depCnt (b_metaNodes b2 ! idx) = 0) [0..<n]\<rparr>)))"

definition NewDAG :: "nat \<Rightarrow> Node list \<Rightarrow> nat option list \<Rightarrow> (string + DAG) option" where
  "NewDAG fuel defs nodes = build fuel defs nodes"

section \<open>Mermaid output of the frozen graph\<close>

text \<open>\<open>%d\<close> of \<open>fmt.Sprintf\<close> on a non-negative index.\<close>

fun itoa :: "nat \<Rightarrow> string" where
  "itoa n = (if n < 10 then [''0123456789'' ! n]
             else itoa (n div 10) @ [''0123456789'' ! (n mod 10)])"

declare itoa.simps [simp del]

text \<open>The three \<open>fmt.Sprintf\<close> calls of \<open>WriteAsMermaid\<close>.\<close>

definition node_line :: "nat \<Rightarrow> string \<Rightarrow> string" where
  "node_line i n = ''    '' @ itoa i @ ''('' @ n @ '')\<newline>''"

definition strong_line :: "nat \<Rightarrow> nat \<Rightarrow> string" where
  "strong_line i childIdx = ''    '' @ itoa i @ '' --> '' @ itoa childIdx @ ''\<newline>''"

definition weak_line :: "nat \<Rightarrow> nat \<Rightarrow> string" where
  "weak_line i weakChildIdx = ''    '' @ itoa i @ '' -.-> '' @ itoa weakChildIdx @ ''\<newline>''"

text \<open>
  An \<open>io.StringWriter\<close> is a state \<open>'w\<close> with a \<open>WriteString\<close> that returns the new
  state and the error (\<open>None\<close> for nil). Every loop of \<open>WriteAsMermaid\<close> returns at the
  first error.
\<close>

type_synonym 'w writer = "'w \<Rightarrow> string \<Rightarrow> 'w \<times> string option"

fun write_lines :: "'w writer \<Rightarrow> string list \<Rightarrow> 'w \<Rightarrow> 'w \<times> string option" where
  "write_lines ws [] w = (w, None)"
| "write_lines ws (l # ls) w =
     (case ws w l of
        (w', Some e) \<Rightarrow> (w', Some e)
      | (w', None) \<Rightarrow> write_lines ws ls w')"

fun write_nodes :: "'w writer \<Rightarrow> nat \<Rightarrow> nodeMetadata list \<Rightarrow> 'w \<Rightarrow> 'w \<times> string option" where
  "write_nodes ws i [] w = (w, None)"
| "write_nodes ws i (node # rest) w =
     (case ws w (node_line i (name node)) of
        (w', Some e) \<Rightarrow> (w', Some e)
      | (w', None) \<Rightarrow> write_nodes ws (Suc i) rest w')"

fun write_edges :: "'w writer \<Rightarrow> nat \<Rightarrow> nodeMetadata list \<Rightarrow> 'w \<Rightarrow> 'w \<times> string option" where
  "write_edges ws i [] w = (w, None)"
| "write_edges ws i (node # rest) w =
     (case write_lines ws (map (strong_line i) (children node)) w of
        (w1, Some e) \<Rightarrow> (w1, Some e)
      | (w1, None) \<Rightarrow>
          (case write_lines ws (map (weak_line i) (weakChildren node)) w1 of
             (w2, Some e) \<Rightarrow> (w2, Some e)
           | (w2, None) \<Rightarrow> write_edges ws (Suc i) rest w2))"

definition WriteAsMermaid :: "'w writer \<Rightarrow> DAG \<Rightarrow> 'w \<Rightarrow> 'w \<times> string option" where
  "WriteAsMermaid ws dag w =
     (case ws w ''graph TB\<newline>'' of
        (w1, Some e) \<Rightarrow> (w1, Some e)
      | (w1, None) \<Rightarrow>
          (case write_nodes ws 0 (metaNodes dag) w1 of
             (w2, Some e) \<Rightarrow> (w2, Some e)
           | (w2, None) \<Rightarrow> write_edges ws 0 (metaNodes dag) w2))"

text \<open>\<open>strings.Builder\<close>: \<open>WriteString\<close> appends and never fails.\<close>

definition builder_WriteString :: "string writer" where
  "builder_WriteString str s = (str @ s, None)"

definition ToMermaid :: "DAG \<Rightarrow> string" where
  "ToMermaid dag = fst (WriteAsMermaid builder_WriteString dag [])"

section \<open>The worker pool (pool.go)\<close>

text \<open>
  The queue is a linked list of heap-allocated tasks. The store is a list of tasks, a
  pointer is an optional address into it, and allocation appends. A thunk is an opaque
  handle; \<open>None\<close> is the nil func.
\<close>

record task =
  task_f :: "nat option"
  task_next :: "nat option"

record Pool =
  store :: "task list"
  p_head :: "nat option"
  p_tail :: "nat option"
  p_len :: int
  p_maxWorkers :: int
  p_workers :: int

definition NewPool :: "int \<Rightarrow> Pool" where
  "NewPool maxWorkers =
     \<lparr>store = [\<lparr>task_f = None, task_next = Some 0\<rparr>],
      p_head = Some 0, p_tail = Some 0, p_len = 0,
      p_maxWorkers = maxWorkers, p_workers = 0\<rparr>"

text \<open>
  A worker goroutine runs \<open>work\<close>: it is about to call its \<open>f\<close>, or inside the call, or
  has returned from \<open>work\<close>. The pool state holds the pool, the workers spawned so far,
  the thunks whose execution has begun (in order), and whether a goroutine has panicked
  (which ends the Go program).
\<close>

datatype worker = ToCall "nat option" | InCall | Exited

record pool_state =
  pool :: Pool
  goroutines :: "worker list"
  executed :: "nat list"
  panicked :: bool

definition new_pool_state :: "int \<Rightarrow> pool_state" where
  "new_pool_state maxWorkers =
     \<lparr>pool = NewPool maxWorkers, goroutines = [], executed = [], panicked = False\<rparr>"

text \<open>\<open>Submit\<close>, whose body runs under the pool's mutex.\<close>

definition Submit :: "nat option \<Rightarrow> pool_state \<Rightarrow> pool_state option" where
  "Submit f s =
     (let p = pool s in
      if f = None then Some s
      else if p_workers p < p_maxWorkers p then
        Some (s\<lparr>pool := p\<lparr>p_workers := p_workers p + 1\<rparr>,
                goroutines := goroutines s @ [ToCall f]\<rparr>)
      else
        (case p_tail p of
           None \<Rightarrow> None
         | Some t \<Rightarrow>
             if t \<ge> length (store p) then None
             else
               (let newTail = length (store p);
                    st = (store p)[t := (store p ! t)\<lparr>task_next := Some newTail\<rparr>]
                         @ [\<lparr>task_f = f, task_next = None\<rparr>]
                in Some (s\<lparr>pool := p\<lparr>store := st, p_tail := Some newTail,
                                      p_len := p_len p + 1\<rparr>\<rparr>))))"

text \<open>
  The loop of \<open>work\<close> in two steps of worker \<open>w\<close>: the call \<open>f()\<close> begins (calling the
  nil func panics), and the call returns, after which the worker takes the next task
  under the mutex or leaves.
\<close>

definition work_call :: "nat \<Rightarrow> pool_state \<Rightarrow> pool_state option" where
  "work_call w s =
     (if w \<ge> length (goroutines s) then None
      else case goroutines s ! w of
        ToCall None \<Rightarrow> Some (s\<lparr>panicked := True\<rparr>)
      | ToCall (Some f) \<Rightarrow>
          Some (s\<lparr>goroutines := (goroutines s)[w := InCall], executed := executed s @ [f]\<rparr>)
      | _ \<Rightarrow> None)"

definition work_next :: "nat \<Rightarrow> pool_state \<Rightarrow> pool_state option" where
  "work_next w s =
     (let p = pool s in
      if w \<ge> length (goroutines s) \<or> goroutines s ! w \<noteq> InCall then None
      else if p_len p > 0 then
        (case p_head p of
           None \<Rightarrow> Some (s\<lparr>panicked := True\<rparr>)
         | Some h \<Rightarrow>
             if h \<ge> length (store p) then None
             else Some (s\<lparr>pool := p\<lparr>p_head := task_next (store p ! h), p_len := p_len p - 1\<rparr>,
                          goroutines := (goroutines s)[w := ToCall (task_f (store p ! h))]\<rparr>))
      else Some (s\<lparr>pool := p\<lparr>p_workers := p_workers p - 1\<rparr>,
                   goroutines := (goroutines s)[w := Exited]\<rparr>))"

datatype pool_event = EvSubmit "nat option" | EvCall nat | EvReturn nat

text \<open>After a panic the program is gone: no step is possible.\<close>

definition pool_step :: "pool_event \<Rightarrow> pool_state \<Rightarrow> pool_state option" where
  "pool_step e s =
     (if panicked s then None
      else case e of
        EvSubmit f \<Rightarrow> Submit f s
      | EvCall w \<Rightarrow> work_call w s
      | EvReturn w \<Rightarrow> work_next w s)"

fun pool_exec :: "pool_event list \<Rightarrow> pool_state \<Rightarrow> pool_state option" where
  "pool_exec [] s = Some s"
| "pool_exec (e # es) s = (case pool_step e s of None \<Rightarrow> None | Some s' \<Rightarrow> pool_exec es s')"

section \<open>Errors, time and results\<close>

text \<open>
  An error value is a \<open>strErr\<close> of this package, the result of \<open>fmt.Errorf\<close>, or an
  opaque error of the user's.
\<close>

datatype error = StrErr string | Errorf string | UserErr nat

definition TimeoutErr :: error where
  "TimeoutErr = StrErr ''timeout''"

text \<open>
  Modelled from the spec: the status constants, whose declaration is not among the
  sources (Waiting=0, Running=1, Succeeded=2, Failed=3). The status is an
  \<open>atomic.Int32\<close>.
\<close>

definition Waiting :: "32 word" where "Waiting = 0"
definition Running :: "32 word" where "Running = 1"
definition Succeeded :: "32 word" where "Succeeded = 2"
definition Failed :: "32 word" where "Failed = 3"

text \<open>
  A \<open>time.Time\<close> is the number of nanoseconds since the zero \<open>Time\<close> (January 1, year 1,
  UTC), read from one clock; the zero value of the type is 0. A \<open>time.Duration\<close> is
  an int64 of nanoseconds: \<open>Time.Sub\<close> saturates at the ends of that range, and
  \<open>time.Since(t)\<close> is \<open>time.Now().Sub(t)\<close>.
\<close>

definition maxDuration :: int where "maxDuration = 2 ^ 63 - 1"
definition minDuration_limit :: int where "minDuration_limit = - (2 ^ 63)"

definition time_Sub :: "int \<Rightarrow> int \<Rightarrow> int" where
  "time_Sub t u =
     (if t - u > maxDuration then maxDuration
      else if t - u < minDuration_limit then minDuration_limit
      else t - u)"

record NodeResult =
  Status :: int
  Err :: "error option"
  Begin :: int
  Cost :: int
  Attempts :: nat

section \<open>Runtime nodes and the run (runtime_node.go, RunWithPool)\<close>

text \<open>
  What the goroutines of one node are doing. \<open>run\<close> is executed by the node's driver
  goroutine; \<open>processWithRetry\<close> is executed by the driver itself when no timeout is
  set (the driver is then at \<open>DRetry\<close>) and by a second goroutine, spawned by
  \<open>processWithTimeout\<close>, otherwise. \<open>go f()\<close> and \<open>pool.Submit(f)\<close> both hand the thunk
  over to be started later (\<open>DPending\<close>, \<open>RPending\<close>).
\<close>

datatype dpc =
    DIdle
  | DPending
  | DFail error
  | DRetry
  | DWaitStarted
  | DSelect
  | DFailLocked error
  | DLoad
  | DStrong
  | DWeak
  | DExit
  | DFinished

datatype rpc =
    RNone
  | RPending
  | RLoop "error option"
  | RCall "error option"
  | RProcessing
  | RBackoff error
  | RSleep error int
  | RDefer "error option"
  | RCas "error option"
  | RSetErr error
  | REnd

text \<open>
  The fields of \<open>runtimeNode\<close> (the \<open>children\<close> and \<open>weakChildren\<close> pointers are the
  metadata's index lists, wired position by position by \<open>RunWithPool\<close>), then the
  control state of its goroutines: \<open>started\<close> is the channel local to
  \<open>processWithTimeout\<close>, \<open>si\<close> and \<open>wi\<close> are the positions of the two notification
  loops of \<open>run\<close>, \<open>inflight\<close> counts the bodies \<open>fn\<close> that user code is running inside
  \<open>DoIfRunning\<close> (each holds the read side of \<open>mu\<close>). The last four fields only
  record history: how often the processor, a user \<open>fn\<close> and the two hooks were invoked.
\<close>

record runtimeNode =
  doneDepCnt :: "32 word"
  status :: "32 word"
  done_closed :: bool
  err :: "error option"
  begin_t :: int
  ddl :: int
  cost :: int
  attempts :: nat
  drv :: dpc
  rty :: rpc
  started :: bool
  si :: nat
  wi :: nat
  inflight :: nat
  calls :: nat
  fn_runs :: nat
  success_hooks :: nat
  failure_hooks :: nat

definition newRuntimeNode :: runtimeNode where
  "newRuntimeNode =
     \<lparr>doneDepCnt = 0, status = Waiting, done_closed = False, err = None, begin_t = 0, ddl = 0,
      cost = 0, attempts = 0, drv = DIdle, rty = RNone, started = False, si = 0, wi = 0,
      inflight = 0, calls = 0, fn_runs = 0, success_hooks = 0, failure_hooks = 0\<rparr>"

datatype mpc = MFire nat | MWait | MCollect | MDone

text \<open>
  The state of one run: the runtime nodes, the wait group, the clock, \<open>ctx.begin\<close>, the
  caller's position in \<open>RunWithPool\<close> and the results collected so far.
\<close>

record run_state =
  nodes :: "runtimeNode list"
  wg :: int
  now :: int
  ctx_begin :: int
  caller :: mpc
  results :: "NodeResult list"

definition init :: "DAG \<Rightarrow> int \<Rightarrow> run_state" where
  "init dag t =
     \<lparr>nodes = map (\<lambda>_. newRuntimeNode) (metaNodes dag), wg = 0, now = t, ctx_begin = t,
      caller = MFire 0, results = []\<rparr>"

text \<open>The write side of \<open>mu\<close> is held exactly while the deadline handler is inside \<open>fail\<close>.\<close>

definition write_locked :: "runtimeNode \<Rightarrow> bool" where
  "write_locked n = (case drv n of DFailLocked e \<Rightarrow> True | _ \<Rightarrow> False)"

subsection \<open>The methods of a runtime node\<close>

text \<open>
  \<open>DoIfRunning\<close>, called where the read lock can be taken: the returned flag, and the
  node after \<open>fn\<close> ran or did not.
\<close>

definition DoIfRunning :: "(runtimeNode \<Rightarrow> runtimeNode) \<Rightarrow> runtimeNode \<Rightarrow> bool \<times> runtimeNode" where
  "DoIfRunning fn n = (if status n \<noteq> Running then (False, n) else (True, fn n))"

definition GetCost :: "runtimeNode \<Rightarrow> int \<Rightarrow> int" where
  "GetCost n t = (if done_closed n then cost n else time_Sub t (begin_t n))"

definition getResult :: "runtimeNode \<Rightarrow> int \<Rightarrow> NodeResult" where
  "getResult n t =
     \<lparr>Status = sint (status n), Err = err n, Begin = begin_t n, Cost = GetCost n t,
      Attempts = attempts n\<rparr>"

text \<open>
  \<open>success\<close>, and the two halves of \<open>fail\<close>: the compare-and-swap, and after a
  successful one the assignment of \<open>err\<close> with the call of the hook.
\<close>

definition success :: "nodeMetadata \<Rightarrow> runtimeNode \<Rightarrow> runtimeNode" where
  "success m n =
     (if status n \<noteq> Running then n
      else n\<lparr>status := Succeeded,
             success_hooks := (if onSuccess m \<noteq> None then success_hooks n + 1
                               else success_hooks n)\<rparr>)"

definition fail_cas :: "runtimeNode \<Rightarrow> bool \<times> runtimeNode" where
  "fail_cas n = (if status n \<noteq> Running then (False, n) else (True, n\<lparr>status := Failed\<rparr>))"

definition fail_set :: "nodeMetadata \<Rightarrow> error \<Rightarrow> runtimeNode \<Rightarrow> runtimeNode" where
  "fail_set m e n =
     n\<lparr>err := Some e,
       failure_hooks := (if onFailure m \<noteq> None then failure_hooks n + 1
                         else failure_hooks n)\<rparr>"

text \<open>
  What the processor does is an input of the run: it returns an error value (\<open>None\<close>
  for nil) or panics with a payload, here already printed by \<open>%v\<close>. \<open>process\<close> turns a
  panic into an error.
\<close>

datatype outcome = Returns "error option" | Panics string

definition process :: "nodeMetadata \<Rightarrow> outcome \<Rightarrow> error option" where
  "process m r =
     (case r of
        Returns e \<Rightarrow> e
      | Panics v \<Rightarrow> Some (Errorf (''recover panic over node '' @ name m @ '': '' @ v)))"

subsection \<open>The steps of the driver goroutine: \<open>run\<close> and \<open>processWithTimeout\<close>\<close>

text \<open>
  Every step below is one access to shared state together with the local computation
  around it; a step whose goroutine is elsewhere, or blocked, is \<open>None\<close>. A step of
  node \<open>n\<close> with metadata \<open>m\<close> reads \<open>ctx.begin\<close> (\<open>cb\<close>) and the clock (\<open>t\<close>).
\<close>

definition run_entry :: "nodeMetadata \<Rightarrow> int \<Rightarrow> int \<Rightarrow> runtimeNode \<Rightarrow> runtimeNode option" where
  "run_entry m cb t n =
     (if drv n \<noteq> DPending then None
      else if totalTimeout m > 0 \<and> t > cb + totalTimeout m then
        (case fail_cas n of
           (True, n1) \<Rightarrow> Some (n1\<lparr>drv := DFail TimeoutErr\<rparr>)
         | (False, n1) \<Rightarrow> Some (n1\<lparr>drv := DLoad\<rparr>))
      else if processor m = None then Some ((success m n)\<lparr>drv := DLoad\<rparr>)
      else if localTimeout m \<le> 0 \<and> totalTimeout m \<le> 0 then
        Some (n\<lparr>begin_t := t, drv := DRetry, rty := RLoop None\<rparr>)
      else Some (n\<lparr>drv := DWaitStarted, rty := RPending\<rparr>))"

definition drv_fail_set :: "nodeMetadata \<Rightarrow> runtimeNode \<Rightarrow> runtimeNode option" where
  "drv_fail_set m n =
     (case drv n of
        DFail e \<Rightarrow> Some ((fail_set m e n)\<lparr>drv := DLoad\<rparr>)
      | DFailLocked e \<Rightarrow> Some ((fail_set m e n)\<lparr>drv := DLoad\<rparr>)
      | _ \<Rightarrow> None)"

definition drv_resume :: "runtimeNode \<Rightarrow> runtimeNode option" where
  "drv_resume n = (if drv n = DRetry \<and> rty n = REnd then Some (n\<lparr>drv := DLoad\<rparr>) else None)"

definition drv_started :: "runtimeNode \<Rightarrow> runtimeNode option" where
  "drv_started n =
     (if drv n = DWaitStarted \<and> started n then Some (n\<lparr>drv := DSelect\<rparr>) else None)"

definition drv_done :: "runtimeNode \<Rightarrow> runtimeNode option" where
  "drv_done n = (if drv n = DSelect \<and> done_closed n then Some (n\<lparr>drv := DLoad\<rparr>) else None)"

text \<open>
  The timer case of the \<open>select\<close>: the deadline has passed and \<open>mu.Lock()\<close> has been
  granted, which needs every reader gone. \<open>mu.Unlock()\<close> is part of \<open>drv_fail_set\<close>.
\<close>

definition drv_timeout :: "int \<Rightarrow> runtimeNode \<Rightarrow> runtimeNode option" where
  "drv_timeout t n =
     (if drv n = DSelect \<and> t \<ge> ddl n \<and> inflight n = 0
      then (case fail_cas n of
              (True, n1) \<Rightarrow> Some (n1\<lparr>drv := DFailLocked TimeoutErr\<rparr>)
            | (False, n1) \<Rightarrow> Some (n1\<lparr>drv := DLoad\<rparr>))
      else None)"

definition drv_load :: "runtimeNode \<Rightarrow> runtimeNode option" where
  "drv_load n =
     (if drv n = DLoad
      then Some (n\<lparr>drv := (if status n = Succeeded then DStrong else DWeak)\<rparr>)
      else None)"

text \<open>
  One iteration of the two notification loops of \<open>run\<close>: the node afterwards, and the
  child whose \<open>onDepDone\<close> is called (none when a loop is at its end).
\<close>

definition drv_notify :: "nodeMetadata \<Rightarrow> runtimeNode \<Rightarrow> (runtimeNode \<times> nat option) option" where
  "drv_notify m n =
     (case drv n of
        DStrong \<Rightarrow>
          if si n < length (children m)
          then Some (n\<lparr>si := si n + 1\<rparr>, Some (children m ! si n))
          else Some (n\<lparr>drv := DWeak\<rparr>, None)
      | DWeak \<Rightarrow>
          if wi n < length (weakChildren m)
          then Some (n\<lparr>wi := wi n + 1\<rparr>, Some (weakChildren m ! wi n))
          else Some (n\<lparr>drv := DExit\<rparr>, None)
      | _ \<Rightarrow> None)"

text \<open>The deferred \<open>wg.Done()\<close> of \<open>run\<close>; the wait group is decremented by \<open>step\<close>.\<close>

definition drv_exit :: "runtimeNode \<Rightarrow> runtimeNode option" where
  "drv_exit n = (if drv n = DExit then Some (n\<lparr>drv := DFinished\<rparr>) else None)"

subsection \<open>The steps of \<open>processWithRetry\<close>\<close>

definition effective_timeout :: "nodeMetadata \<Rightarrow> int \<Rightarrow> int \<Rightarrow> int" where
  "effective_timeout m cb b =
     (let t1 = maxDuration;
          t2 = (if localTimeout m > 0 then minDuration t1 (localTimeout m) else t1)
      in if totalTimeout m > 0 then minDuration t2 (time_Sub (cb + totalTimeout m) b) else t2)"

definition inner_begin :: "nodeMetadata \<Rightarrow> int \<Rightarrow> int \<Rightarrow> runtimeNode \<Rightarrow> runtimeNode option" where
  "inner_begin m cb t n =
     (if rty n = RPending
      then Some (n\<lparr>begin_t := t, ddl := t + effective_timeout m cb t, started := True,
                   rty := RLoop None\<rparr>)
      else None)"

definition attempt :: "nodeMetadata \<Rightarrow> runtimeNode \<Rightarrow> runtimeNode option" where
  "attempt m n =
     (case rty n of
        RLoop e \<Rightarrow>
          if attempts n < maxUint 1 (maxAttempts m) then
            (if write_locked n then None
             else case DoIfRunning (\<lambda>n. n\<lparr>attempts := attempts n + 1\<rparr>) n of
                    (True, n1) \<Rightarrow> Some (n1\<lparr>rty := RCall e\<rparr>)
                  | (False, n1) \<Rightarrow> Some (n1\<lparr>rty := RDefer e\<rparr>))
          else Some (n\<lparr>rty := RDefer e\<rparr>)
      | _ \<Rightarrow> None)"

definition invoke :: "runtimeNode \<Rightarrow> runtimeNode option" where
  "invoke n =
     (case rty n of
        RCall e \<Rightarrow> Some (n\<lparr>calls := calls n + 1, rty := RProcessing\<rparr>)
      | _ \<Rightarrow> None)"

definition proc_return :: "nodeMetadata \<Rightarrow> outcome \<Rightarrow> runtimeNode \<Rightarrow> runtimeNode option" where
  "proc_return m r n =
     (if rty n \<noteq> RProcessing then None
      else case process m r of
        None \<Rightarrow> Some (n\<lparr>rty := RDefer None\<rparr>)
      | Some e \<Rightarrow>
          if attempts n \<noteq> maxUint 1 (maxAttempts m) \<and> backoffFunc m \<noteq> None
          then Some (n\<lparr>rty := RBackoff e\<rparr>)
          else Some (n\<lparr>rty := RLoop (Some e)\<rparr>))"

text \<open>\<open>d\<close> is what the backoff function returned for this attempt.\<close>

definition backoff :: "int \<Rightarrow> int \<Rightarrow> runtimeNode \<Rightarrow> runtimeNode option" where
  "backoff t d n =
     (case rty n of
        RBackoff e \<Rightarrow>
          if status n \<noteq> Running then Some (n\<lparr>rty := RDefer (Some e)\<rparr>)
          else Some (n\<lparr>rty := RSleep e (t + d)\<rparr>)
      | _ \<Rightarrow> None)"

definition wake :: "int \<Rightarrow> runtimeNode \<Rightarrow> runtimeNode option" where
  "wake t n =
     (case rty n of
        RSleep e w \<Rightarrow> if t \<ge> w then Some (n\<lparr>rty := RLoop (Some e)\<rparr>) else None
      | _ \<Rightarrow> None)"

text \<open>The deferred function: the cost and \<open>close(node.done)\<close> first, the status after.\<close>

definition retry_close :: "int \<Rightarrow> runtimeNode \<Rightarrow> runtimeNode option" where
  "retry_close t n =
     (case rty n of
        RDefer e \<Rightarrow>
          Some (n\<lparr>cost := time_Sub t (begin_t n), done_closed := True, rty := RCas e\<rparr>)
      | _ \<Rightarrow> None)"

definition retry_cas :: "nodeMetadata \<Rightarrow> runtimeNode \<Rightarrow> runtimeNode option" where
  "retry_cas m n =
     (case rty n of
        RCas None \<Rightarrow> Some ((success m n)\<lparr>rty := REnd\<rparr>)
      | RCas (Some e) \<Rightarrow>
          (case fail_cas n of
             (True, n1) \<Rightarrow> Some (n1\<lparr>rty := RSetErr e\<rparr>)
           | (False, n1) \<Rightarrow> Some (n1\<lparr>rty := REnd\<rparr>))
      | _ \<Rightarrow> None)"

definition retry_set_err :: "nodeMetadata \<Rightarrow> runtimeNode \<Rightarrow> runtimeNode option" where
  "retry_set_err m n =
     (case rty n of
        RSetErr e \<Rightarrow> Some ((fail_set m e n)\<lparr>rty := REnd\<rparr>)
      | _ \<Rightarrow> None)"

subsection \<open>User code\<close>

text \<open>
  User code holding the node's handle calls \<open>DoIfRunning(fn)\<close>: the check, and when it
  passes the body \<open>fn\<close> begins; the body ends, and the read lock is released, in a later
  step.
\<close>

definition user_DoIfRunning :: "runtimeNode \<Rightarrow> runtimeNode option" where
  "user_DoIfRunning n =
     (if write_locked n then None
      else Some (snd (DoIfRunning (\<lambda>n. n\<lparr>inflight := inflight n + 1,
                                           fn_runs := fn_runs n + 1\<rparr>) n)))"

definition user_fn_return :: "runtimeNode \<Rightarrow> runtimeNode option" where
  "user_fn_return n = (if inflight n > 0 then Some (n\<lparr>inflight := inflight n - 1\<rparr>) else None)"

subsection \<open>The run as a whole\<close>

datatype event =
    Caller
  | Tick int
  | RunEntry nat
  | DrvFailSet nat
  | DrvResume nat
  | DrvStarted nat
  | DrvDone nat
  | DrvTimeout nat
  | DrvLoad nat
  | DrvNotify nat
  | DrvExit nat
  | InnerBegin nat
  | Attempt nat
  | Invoke nat
  | ProcReturn nat outcome
  | Backoff nat int
  | Wake nat
  | RetryClose nat
  | RetryCas nat
  | RetrySetErr nat
  | UserDoIfRunning nat
  | UserFnReturn nat

fun actor :: "event \<Rightarrow> nat option" where
  "actor Caller = None"
| "actor (Tick d) = None"
| "actor (RunEntry i) = Some i"
| "actor (DrvFailSet i) = Some i"
| "actor (DrvResume i) = Some i"
| "actor (DrvStarted i) = Some i"
| "actor (DrvDone i) = Some i"
| "actor (DrvTimeout i) = Some i"
| "actor (DrvLoad i) = Some i"
| "actor (DrvNotify i) = Some i"
| "actor (DrvExit i) = Some i"
| "actor (InnerBegin i) = Some i"
| "actor (Attempt i) = Some i"
| "actor (Invoke i) = Some i"
| "actor (ProcReturn i r) = Some i"
| "actor (Backoff i d) = Some i"
| "actor (Wake i) = Some i"
| "actor (RetryClose i) = Some i"
| "actor (RetryCas i) = Some i"
| "actor (RetrySetErr i) = Some i"
| "actor (UserDoIfRunning i) = Some i"
| "actor (UserFnReturn i) = Some i"

text \<open>What a step of a node's goroutines, or of user code on its handle, does to the node.\<close>

fun local_step :: "nodeMetadata \<Rightarrow> int \<Rightarrow> int \<Rightarrow> event \<Rightarrow> runtimeNode \<Rightarrow> runtimeNode option" where
  "local_step m cb t (RunEntry i) n = run_entry m cb t n"
| "local_step m cb t (DrvFailSet i) n = drv_fail_set m n"
| "local_step m cb t (DrvResume i) n = drv_resume n"
| "local_step m cb t (DrvStarted i) n = drv_started n"
| "local_step m cb t (DrvDone i) n = drv_done n"
| "local_step m cb t (DrvTimeout i) n = drv_timeout t n"
| "local_step m cb t (DrvLoad i) n = drv_load n"
| "local_step m cb t (DrvNotify i) n = map_option fst (drv_notify m n)"
| "local_step m cb t (DrvExit i) n = drv_exit n"
| "local_step m cb t (InnerBegin i) n = inner_begin m cb t n"
| "local_step m cb t (Attempt i) n = attempt m n"
| "local_step m cb t (Invoke i) n = invoke n"
| "local_step m cb t (ProcReturn i r) n = proc_return m r n"
| "local_step m cb t (Backoff i d) n = backoff t d n"
| "local_step m cb t (Wake i) n = wake t n"
| "local_step m cb t (RetryClose i) n = retry_close t n"
| "local_step m cb t (RetryCas i) n = retry_cas m n"
| "local_step m cb t (RetrySetErr i) n = retry_set_err m n"
| "local_step m cb t (UserDoIfRunning i) n = user_DoIfRunning n"
| "local_step m cb t (UserFnReturn i) n = user_fn_return n"
| "local_step m cb t Caller n = None"
| "local_step m cb t (Tick d) n = None"

definition upd :: "nat \<Rightarrow> (runtimeNode \<Rightarrow> runtimeNode) \<Rightarrow> run_state \<Rightarrow> run_state" where
  "upd i g s = s\<lparr>nodes := (nodes s)[i := g (nodes s ! i)]\<rparr>"

text \<open>
  \<open>start\<close>: the compare-and-swap Waiting to Running, and on success the wait group and
  the dispatch of \<open>run\<close>. \<open>onDepDone\<close>: the atomic increment, and \<open>start\<close> for the
  arrival that reaches \<open>depCnt\<close>.
\<close>

definition start :: "nat \<Rightarrow> run_state \<Rightarrow> run_state" where
  "start i s =
     (if status (nodes s ! i) \<noteq> Waiting then s
      else (upd i (\<lambda>n. n\<lparr>status := Running, drv := DPending\<rparr>) s)\<lparr>wg := wg s + 1\<rparr>)"

definition onDepDone :: "DAG \<Rightarrow> nat \<Rightarrow> run_state \<Rightarrow> run_state" where
  "onDepDone dag i s =
     (let s1 = upd i (\<lambda>n. n\<lparr>doneDepCnt := doneDepCnt n + 1\<rparr>) s
      in if doneDepCnt (nodes s1 ! i) = depCnt (metaNodes dag ! i) then start i s1 else s1)"

text \<open>
  What a step of node \<open>i\<close> does beyond the node itself, given the node \<open>n\<close> before the
  step: a notification reaches a child, and the end of \<open>run\<close> decrements the wait group.
\<close>

definition global_effect :: "DAG \<Rightarrow> nat \<Rightarrow> event \<Rightarrow> runtimeNode \<Rightarrow> run_state \<Rightarrow> run_state" where
  "global_effect dag i e n s =
     (case e of
        DrvNotify _ \<Rightarrow>
          (case drv_notify (metaNodes dag ! i) n of
             Some (_, Some c) \<Rightarrow> onDepDone dag c s
           | _ \<Rightarrow> s)
      | DrvExit _ \<Rightarrow> s\<lparr>wg := wg s - 1\<rparr>
      | _ \<Rightarrow> s)"

definition tick :: "int \<Rightarrow> run_state \<Rightarrow> run_state option" where
  "tick d s = (if d \<ge> 0 then Some (s\<lparr>now := now s + d\<rparr>) else None)"

text \<open>
  The caller fires the roots in order, waits for the wait group to reach zero, and
  collects one result per node in index order (\<open>GetCost\<close> takes the read lock).
\<close>

definition caller_step :: "DAG \<Rightarrow> run_state \<Rightarrow> run_state option" where
  "caller_step dag s =
     (case caller s of
        MFire k \<Rightarrow>
          if k < length (rootNodes dag) then
            (if rootNodes dag ! k < length (nodes s)
             then Some ((start (rootNodes dag ! k) s)\<lparr>caller := MFire (k + 1)\<rparr>) else None)
          else Some (s\<lparr>caller := MWait\<rparr>)
      | MWait \<Rightarrow> if wg s = 0 then Some (s\<lparr>caller := MCollect\<rparr>) else None
      | MCollect \<Rightarrow>
          (let k = length (results s) in
           if k < length (nodes s) then
             (if write_locked (nodes s ! k) then None
              else Some (s\<lparr>results := results s @ [getResult (nodes s ! k) (now s)]\<rparr>))
           else Some (s\<lparr>caller := MDone\<rparr>))
      | MDone \<Rightarrow> None)"

text \<open>One step of the run; a step of a node that does not exist is not possible.\<close>

definition step :: "DAG \<Rightarrow> event \<Rightarrow> run_state \<Rightarrow> run_state option" where
  "step dag e s =
     (case e of
        Caller \<Rightarrow> caller_step dag s
      | Tick d \<Rightarrow> tick d s
      | _ \<Rightarrow>
          (case actor e of
             None \<Rightarrow> None
           | Some i \<Rightarrow>
               if i \<ge> length (nodes s) then None
               else case local_step (metaNodes dag ! i) (ctx_begin s) (now s) e (nodes s ! i) of
                      None \<Rightarrow> None
                    | Some n' \<Rightarrow>
                        Some (global_effect dag i e (nodes s ! i) (upd i (\<lambda>_. n') s))))"

fun exec :: "DAG \<Rightarrow> event list \<Rightarrow> run_state \<Rightarrow> run_state option" where
  "exec dag [] s = Some s"
| "exec dag (e # es) s = (case step dag e s of None \<Rightarrow> None | Some s' \<Rightarrow> exec dag es s')"

text \<open>
  What \<open>build\<close> guarantees about a DAG, as far as a run depends on it: every index is
  in range, \<open>depCnt\<close> is the number of incoming edges (below 2^32, so that the int32
  counts them), and the roots have none.
\<close>

definition indeg :: "DAG \<Rightarrow> nat \<Rightarrow> nat" where
  "indeg dag c =
     sum_list (map (\<lambda>m. count_list (children m) c + count_list (weakChildren m) c)
                (metaNodes dag))"

definition wf_dag :: "DAG \<Rightarrow> bool" where
  "wf_dag dag =
     (let n = length (metaNodes dag) in
      list_all (\<lambda>m. list_all (\<lambda>c. c < n) (children m) \<and> list_all (\<lambda>c. c < n) (weakChildren m))
        (metaNodes dag) \<and>
      list_all (\<lambda>c. depCnt (metaNodes dag ! c) = of_nat (indeg dag c) \<and> indeg dag c < 2 ^ 32)
        [0..<n] \<and>
      list_all (\<lambda>r. r < n \<and> depCnt (metaNodes dag ! r) = 0) (rootNodes dag))"

section \<open>Example graphs\<close>

text \<open>
  The instant at which the example runs begin: January 1, 2025, in nanoseconds since
  the zero \<open>Time\<close>.
\<close>

definition t2025 :: int where
  "t2025 = 63871286400 * 1000000000"

definition plain_node :: "string \<Rightarrow> nat option list \<Rightarrow> nat option list \<Rightarrow> Node" where
  "plain_node n deps weakDeps =
     \<lparr>Name = n, Processor = Some 0, LocalTimeout = 0, TotalTimeout = 0, Dependencies = deps,
      WeakDependencies = weakDeps, MaxAttempts = 0, BackoffFunc = None, OnSuccess = None,
      OnFailure = None\<rparr>"

text \<open>One node with a processor and a local timeout of 1ms.\<close>

definition timed_defs :: "Node list" where
  "timed_defs = [(plain_node ''n1'' [] [])\<lparr>LocalTimeout := 1000000\<rparr>]"

text \<open>
  Scenario 5 of the specification: a chain n1, n2 where n2 depends on n1 and has a total
  timeout of 5ms; the leaf handed to \<open>NewDAG\<close> is n2.
\<close>

definition chain_defs :: "Node list" where
  "chain_defs = [plain_node ''n1'' [] [],
                 (plain_node ''n2'' [Some 0] [])\<lparr>TotalTimeout := 5000000\<rparr>]"

text \<open>The example of the README: n2 depends on n1, n3 depends weakly on n2.\<close>

definition readme_defs :: "Node list" where
  "readme_defs = [plain_node ''node1'' [] [],
                  (plain_node ''node2'' [Some 0] [])\<lparr>LocalTimeout := 1000000\<rparr>,
                  plain_node ''node3'' [] [Some 1]]"

text \<open>The test \<open>TestCycle\<close>: node1 depends on node3, node2 on node1, node3 on node2.\<close>

definition cycle_defs :: "Node list" where
  "cycle_defs = [(plain_node ''node1'' [Some 2] [])\<lparr>Processor := None\<rparr>,
                 (plain_node ''node2'' [Some 0] [])\<lparr>Processor := None\<rparr>,
                 (plain_node ''node3'' [Some 1] [])\<lparr>Processor := None\<rparr>]"

section \<open>Properties of the Mermaid output\<close>

lemma write_lines_builder: "write_lines builder_WriteString ls str = (str @ concat ls, None)"
  by (induction ls arbitrary: str) (auto simp: builder_WriteString_def)

lemma write_nodes_builder:
  "write_nodes builder_WriteString i ms str =
     (str @ concat (map (\<lambda>k. node_line (i + k) (name (ms ! k))) [0..<length ms]), None)"
proof (induction ms arbitrary: i str)
  case Nil
  then show ?case by simp
next
  case (Cons m ms)
  have "map (\<lambda>k. node_line (i + k) (name ((m # ms) ! k))) [0..<length (m # ms)]
      = node_line i (name m) # map (\<lambda>k. node_line (Suc i + k) (name (ms ! k))) [0..<length ms]"
    by (simp add: upt_conv_Cons map_Suc_upt[symmetric] del: upt_Suc)
  then show ?case using Cons by (simp add: builder_WriteString_def)
qed

lemma write_edges_builder:
  "write_edges builder_WriteString i ms str =
     (str @ concat (map (\<lambda>k. concat (map (strong_line (i + k)) (children (ms ! k))) @
                              concat (map (weak_line (i + k)) (weakChildren (ms ! k))))
                    [0..<length ms]), None)"
proof (induction ms arbitrary: i str)
  case Nil
  then show ?case by simp
next
  case (Cons m ms)
  let ?g = "\<lambda>i m. concat (map (strong_line i) (children m)) @ concat (map (weak_line i) (weakChildren m))"
  have "map (\<lambda>k. ?g (i + k) ((m # ms) ! k)) [0..<length (m # ms)]
      = ?g i m # map (\<lambda>k. ?g (Suc i + k) (ms ! k)) [0..<length ms]"
    by (simp add: upt_conv_Cons map_Suc_upt[symmetric] del: upt_Suc)
  then show ?case using Cons by (simp add: write_lines_builder)
qed

text \<open>
  C9 (format): the output of \<open>ToMermaid\<close> is the header line, then the line of every
  metadata node in index order, then for every node in index order the lines of its strong
  edges followed by the lines of its weak edges; the numbers are the metadata indices.
\<close>

theorem C9_ToMermaid_format:
  "ToMermaid dag =
     ''graph TB\<newline>'' @
     concat (map (\<lambda>i. node_line i (name (metaNodes dag ! i))) [0..<length (metaNodes dag)]) @
     concat (map (\<lambda>i. concat (map (strong_line i) (children (metaNodes dag ! i))) @
                       concat (map (weak_line i) (weakChildren (metaNodes dag ! i))))
               [0..<length (metaNodes dag)])"
  by (simp add: ToMermaid_def WriteAsMermaid_def write_nodes_builder write_edges_builder
      builder_WriteString_def)

section \<open>The queue of the pool loses its first task\<close>

text \<open>
  C8 (failing run): a pool of one worker receives thunk 1, then thunk 2 while thunk 1
  is running. When thunk 1 returns, the worker takes the \<open>f\<close> of the sentinel task at the
  head of the queue, which is nil, and calling it panics; thunk 2 was never executed.
\<close>

theorem C8_queued_thunk_not_executed:
  "\<exists>s. pool_exec [EvSubmit (Some 1), EvSubmit (Some 2), EvCall 0, EvReturn 0, EvCall 0]
          (new_pool_state 1) = Some s \<and>
       panicked s \<and> executed s = [1] \<and> p_len (pool s) = 0"
  by (simp add: new_pool_state_def NewPool_def pool_step_def Submit_def work_call_def
      work_next_def Let_def)

section \<open>Runs in which the caller overtakes the second goroutine of a node\<close>

text \<open>
  C3 (failing run): one node with a processor and a local timeout of 1ms. The processor
  returns nil at once; the deferred function of \<open>processWithRetry\<close> closes \<open>done\<close>; the
  driver wakes from its \<open>select\<close>, loads the status (still Running), notifies, and
  leaves; the caller collects the results before the second goroutine reaches
  \<open>success\<close>. The result vector holds status Running (1).
\<close>

theorem C3_result_status_running:
  "case NewDAG 2 timed_defs [Some 0] of
     Some (Inr dag) \<Rightarrow>
       (case exec dag [Caller, Caller, RunEntry 0, InnerBegin 0, Attempt 0, Invoke 0,
                       ProcReturn 0 (Returns None), RetryClose 0, DrvStarted 0, DrvDone 0,
                       DrvLoad 0, DrvNotify 0, DrvExit 0, Caller, Caller, Caller]
               (init dag t2025) of
          Some s \<Rightarrow> caller s = MDone \<and> map Status (results s) = [1]
        | None \<Rightarrow> False)
   | _ \<Rightarrow> False"
  by code_simp

text \<open>
  C10 (failing run): the same node, whose processor returns an error. The second
  goroutine has done the compare-and-swap to Failed but not yet the assignment of
  \<open>err\<close> when the caller collects: status Failed (3) with a nil \<open>Err\<close>.
\<close>

theorem C10_failed_with_nil_err:
  "case NewDAG 2 timed_defs [Some 0] of
     Some (Inr dag) \<Rightarrow>
       (case exec dag [Caller, Caller, RunEntry 0, InnerBegin 0, Attempt 0, Invoke 0,
                       ProcReturn 0 (Returns (Some (UserErr 7))), Attempt 0, RetryClose 0,
                       DrvStarted 0, DrvDone 0, DrvLoad 0, DrvNotify 0, DrvExit 0,
                       RetryCas 0, Caller, Caller, Caller]
               (init dag t2025) of
          Some s \<Rightarrow> caller s = MDone \<and> map Status (results s) = [3] \<and>
                    map Err (results s) = [None]
        | None \<Rightarrow> False)
   | _ \<Rightarrow> False"
  by code_simp

section \<open>The cost of a node that was never begun\<close>

text \<open>
  C6 (failing run): scenario 5. n1 (index 1) runs for 10ms and succeeds; the worker of
  n2 (index 0) starts after its total timeout of 5ms and fails with the timeout error
  without setting \<open>begin\<close>. The cost reported for n2 is the largest duration (about
  292 years), while the whole run took 10ms.
\<close>

theorem C6_cost_of_expired_node:
  "case NewDAG 3 chain_defs [Some 1] of
     Some (Inr dag) \<Rightarrow>
       (case exec dag [Caller, Caller, RunEntry 1, Attempt 1, Invoke 1, Tick 10000000,
                       ProcReturn 1 (Returns None), RetryClose 1, RetryCas 1, DrvResume 1,
                       DrvLoad 1, DrvNotify 1, DrvNotify 1, DrvNotify 1, DrvExit 1,
                       RunEntry 0, DrvFailSet 0, DrvLoad 0, DrvNotify 0, DrvExit 0,
                       Caller, Caller, Caller, Caller]
               (init dag t2025) of
          Some s \<Rightarrow> caller s = MDone \<and> map Status (results s) = [3, 2] \<and>
                    map Err (results s) = [Some TimeoutErr, None] \<and>
                    map Attempts (results s) = [0, 1] \<and>
                    map Cost (results s) = [9223372036854775807, 10000000] \<and>
                    now s - ctx_begin s = 10000000
        | None \<Rightarrow> False)
   | _ \<Rightarrow> False"
  by code_simp

end
